theory Spec2Isabelle
  imports Main "HOL-Library.Word"
begin

unbundle bit_operations_syntax

section \<open>Exceptions\<close>

text \<open>
  Every exception the modelled code can see is a value. \<open>ClientError code\<close> is botocore's
  \<open>ClientError\<close> with \<open>response['Error']['Code'] = code\<close>; \<open>BotoCoreError\<close> stands for
  every boto exception that is not a \<open>ClientError\<close> (connection faults, missing
  credentials). \<open>DbFault\<close> is a psycopg2 error raised by the named statement of a unit
  of work, \<open>UniqueViolation\<close> the error of an INSERT that breaks a unique constraint.
\<close>

datatype db_step = GetConn | Cursor | Execute | Fetch | Commit | CloseCursor | Rollback

datatype exn =
    ClientError string
  | BotoCoreError
  | ValueError
  | TypeError
  | KeyError
  | PoolError
  | DbFault db_step
  | UniqueViolation

section \<open>Python's \<open>int()\<close> on a string\<close>

text \<open>
  \<open>int(s)\<close> for a \<open>str\<close>, base 10. A character of a \<open>string\<close> here is a code point up
  to 255. Surrounding blanks are stripped: the six that C's \<open>isspace\<close> knows (9 to 13
  and 32) and, of the code points from 128 on, the two that are Unicode spaces (133 and
  160). One sign is allowed, then come decimal digits in which single underscores may
  separate digits. Anything else raises \<open>ValueError\<close> (\<open>None\<close>).
\<close>

definition py_isspace :: "char \<Rightarrow> bool" where
  "py_isspace c \<longleftrightarrow> (of_char c :: nat) \<in> set [9, 10, 11, 12, 13, 32, 133, 160]"

definition py_strip :: "string \<Rightarrow> string" where
  "py_strip s = rev (dropWhile py_isspace (rev (dropWhile py_isspace s)))"

definition is_digit :: "char \<Rightarrow> bool" where
  "is_digit c \<longleftrightarrow> 48 \<le> (of_char c :: nat) \<and> (of_char c :: nat) \<le> 57"

definition digit_val :: "char \<Rightarrow> nat" where
  "digit_val c = of_char c - 48"

fun py_digits :: "nat \<Rightarrow> string \<Rightarrow> nat option" where
  "py_digits acc [] = Some acc"
| "py_digits acc [c] = (if is_digit c then Some (acc * 10 + digit_val c) else None)"
| "py_digits acc (c # c' # cs) =
     (if is_digit c then py_digits (acc * 10 + digit_val c) (c' # cs)
      else if c = CHR ''_'' \<and> is_digit c' then py_digits acc (c' # cs)
      else None)"

definition py_int :: "string \<Rightarrow> int option" where
  "py_int s =
     (let t = py_strip s;
          neg = (case t of [] \<Rightarrow> False | c # _ \<Rightarrow> c = CHR ''-'');
          u = (case t of [] \<Rightarrow> [] | c # r \<Rightarrow> if c = CHR ''-'' \<or> c = CHR ''+'' then r else t)
      in case u of
           [] \<Rightarrow> None
         | c # _ \<Rightarrow>
             if is_digit c
             then map_option (\<lambda>n. if neg then - int n else int n) (py_digits 0 u)
             else None)"

section \<open>Object store gateway: bucket provisioning (s3_utils.py)\<close>

text \<open>
  The blob store is outside the program. \<open>head_bucket\<close> and \<open>create_bucket\<close> of the
  client are modelled by what they answer at each attempt of the loop: they return, raise
  a \<open>ClientError\<close> with a code, or raise something that is not a \<open>ClientError\<close>.
\<close>

datatype s3_reply = Returns | RaisesClientError string | RaisesOther

record s3_backend =
  head_bucket :: "nat \<Rightarrow> s3_reply"
  create_bucket :: "nat \<Rightarrow> s3_reply"

datatype s3_event = HeadBucket | CreateBucket | Sleep nat

text \<open>
  \<open>READY\<close>: \<open>_ensure_bucket_exists\<close> returned. \<open>FAILED e\<close>: it raised \<open>e\<close>.
\<close>

datatype provision = READY | FAILED exn

definition max_retries :: nat where
  "max_retries = 5"

text \<open>
  The body of \<open>for attempt in range(max_retries)\<close>. The arguments are the attempts still to
  run, the current \<open>retry_delay\<close> and the calls and sleeps made so far. A loop
  that runs out of attempts falls off the end of the function, which returns.
\<close>

fun ensure_attempts ::
  "s3_backend \<Rightarrow> nat list \<Rightarrow> nat \<Rightarrow> s3_event list \<Rightarrow> provision \<times> s3_event list" where
  "ensure_attempts be [] retry_delay log = (READY, log)"
| "ensure_attempts be (attempt # rest) retry_delay log =
     (case head_bucket be attempt of
        Returns \<Rightarrow> (READY, log @ [HeadBucket])
      | RaisesOther \<Rightarrow> (FAILED BotoCoreError, log @ [HeadBucket])
      | RaisesClientError code \<Rightarrow>
          (case py_int code of
             None \<Rightarrow> (FAILED ValueError, log @ [HeadBucket])
           | Some error_code \<Rightarrow>
               if error_code = 404 then
                 (case create_bucket be attempt of
                    Returns \<Rightarrow> (READY, log @ [HeadBucket, CreateBucket])
                  | RaisesOther \<Rightarrow> (FAILED BotoCoreError, log @ [HeadBucket, CreateBucket])
                  | RaisesClientError create_code \<Rightarrow>
                      if create_code \<in> set [''BucketAlreadyExists'', ''BucketAlreadyOwnedByYou'']
                      then (READY, log @ [HeadBucket, CreateBucket])
                      else if attempt < max_retries - 1
                      then ensure_attempts be rest (retry_delay * 2)
                             (log @ [HeadBucket, CreateBucket, Sleep retry_delay])
                      else (FAILED (ClientError create_code), log @ [HeadBucket, CreateBucket]))
               else (FAILED (ClientError code), log @ [HeadBucket])))"

definition ensure_bucket_exists :: "s3_backend \<Rightarrow> provision \<times> s3_event list" where
  "ensure_bucket_exists be = ensure_attempts be [0..<max_retries] 1 []"

text \<open>What the claims speak of: the sleeps of a run, and the two kinds of attempt.\<close>

fun sleeps :: "s3_event list \<Rightarrow> nat list" where
  "sleeps [] = []"
| "sleeps (Sleep d # es) = d # sleeps es"
| "sleeps (_ # es) = sleeps es"

definition creates :: "s3_event list \<Rightarrow> nat" where
  "creates es = length (filter (\<lambda>e. e = CreateBucket) es)"

definition not_found :: "s3_backend \<Rightarrow> nat \<Rightarrow> bool" where
  "not_found be i \<longleftrightarrow>
     (case head_bucket be i of RaisesClientError code \<Rightarrow> py_int code = Some 404 | _ \<Rightarrow> False)"

definition already_exists :: "s3_backend \<Rightarrow> nat \<Rightarrow> bool" where
  "already_exists be i \<longleftrightarrow>
     (case create_bucket be i of
        RaisesClientError c \<Rightarrow> c = ''BucketAlreadyExists'' \<or> c = ''BucketAlreadyOwnedByYou''
      | _ \<Rightarrow> False)"

definition create_fails_otherwise :: "s3_backend \<Rightarrow> nat \<Rightarrow> bool" where
  "create_fails_otherwise be i \<longleftrightarrow>
     (case create_bucket be i of
        RaisesClientError c \<Rightarrow> c \<noteq> ''BucketAlreadyExists'' \<and> c \<noteq> ''BucketAlreadyOwnedByYou''
      | _ \<Rightarrow> False)"

section \<open>Byte streams\<close>

text \<open>
  The uploaded file is a seekable byte stream: its bytes and a read position.
  \<open>read n\<close> returns at most \<open>n\<close> bytes from the position and advances by what it
  returned; at or past the end it returns the empty bytes and does not move.
\<close>

type_synonym byte = "8 word"

record stream =
  content :: "byte list"
  pos :: nat

definition seek :: "nat \<Rightarrow> stream \<Rightarrow> stream" where
  "seek n s = s\<lparr>pos := n\<rparr>"

definition seek_end :: "stream \<Rightarrow> stream" where
  "seek_end s = s\<lparr>pos := length (content s)\<rparr>"

definition tell :: "stream \<Rightarrow> nat" where
  "tell s = pos s"

definition read :: "nat \<Rightarrow> stream \<Rightarrow> byte list \<times> stream" where
  "read n s =
     (let chunk = take n (drop (pos s) (content s))
      in (chunk, s\<lparr>pos := pos s + length chunk\<rparr>))"

definition read_all :: "stream \<Rightarrow> byte list \<times> stream" where
  "read_all s =
     (let data = drop (pos s) (content s)
      in (data, s\<lparr>pos := pos s + length data\<rparr>))"

section \<open>The MD5 object of hashlib\<close>

text \<open>
  \<open>hashlib.md5()\<close> after RFC 1321: four 32-bit registers, the bytes of the block being
  filled, and the number of bytes taken so far. \<open>update\<close> takes the bytes one after the
  other and compresses each time 64 of them are there; \<open>hexdigest\<close> pads a copy and
  prints the registers, low byte first, in lower-case hexadecimal.
\<close>

type_synonym u32 = "32 word"

type_synonym md5_regs = "u32 \<times> u32 \<times> u32 \<times> u32"

definition md5_K :: "u32 list" where
  "md5_K =
    [0xd76aa478, 0xe8c7b756, 0x242070db, 0xc1bdceee, 0xf57c0faf, 0x4787c62a, 0xa8304613, 0xfd469501,
     0x698098d8, 0x8b44f7af, 0xffff5bb1, 0x895cd7be, 0x6b901122, 0xfd987193, 0xa679438e, 0x49b40821,
     0xf61e2562, 0xc040b340, 0x265e5a51, 0xe9b6c7aa, 0xd62f105d, 0x02441453, 0xd8a1e681, 0xe7d3fbc8,
     0x21e1cde6, 0xc33707d6, 0xf4d50d87, 0x455a14ed, 0xa9e3e905, 0xfcefa3f8, 0x676f02d9, 0x8d2a4c8a,
     0xfffa3942, 0x8771f681, 0x6d9d6122, 0xfde5380c, 0xa4beea44, 0x4bdecfa9, 0xf6bb4b60, 0xbebfbc70,
     0x289b7ec6, 0xeaa127fa, 0xd4ef3085, 0x04881d05, 0xd9d4d039, 0xe6db99e5, 0x1fa27cf8, 0xc4ac5665,
     0xf4292244, 0x432aff97, 0xab9423a7, 0xfc93a039, 0x655b59c3, 0x8f0ccc92, 0xffeff47d, 0x85845dd1,
     0x6fa87e4f, 0xfe2ce6e0, 0xa3014314, 0x4e0811a1, 0xf7537e82, 0xbd3af235, 0x2ad7d2bb, 0xeb86d391]"

definition md5_S :: "nat list" where
  "md5_S =
    [7, 12, 17, 22, 7, 12, 17, 22, 7, 12, 17, 22, 7, 12, 17, 22,
     5, 9, 14, 20, 5, 9, 14, 20, 5, 9, 14, 20, 5, 9, 14, 20,
     4, 11, 16, 23, 4, 11, 16, 23, 4, 11, 16, 23, 4, 11, 16, 23,
     6, 10, 15, 21, 6, 10, 15, 21, 6, 10, 15, 21, 6, 10, 15, 21]"

fun le_words :: "byte list \<Rightarrow> u32 list" where
  "le_words (b0 # b1 # b2 # b3 # bs) =
     (ucast b0 OR push_bit 8 (ucast b1) OR push_bit 16 (ucast b2) OR push_bit 24 (ucast b3))
       # le_words bs"
| "le_words _ = []"

definition le_bytes :: "u32 \<Rightarrow> byte list" where
  "le_bytes w = [ucast w, ucast (drop_bit 8 w), ucast (drop_bit 16 w), ucast (drop_bit 24 w)]"

fun md5_step :: "u32 list \<Rightarrow> nat \<Rightarrow> md5_regs \<Rightarrow> md5_regs" where
  "md5_step M i (a, b, c, d) =
     (let f = (if i < 16 then (b AND c) OR (NOT b AND d)
               else if i < 32 then (d AND b) OR (NOT d AND c)
               else if i < 48 then b XOR c XOR d
               else c XOR (b OR NOT d));
          g = (if i < 16 then i
               else if i < 32 then (5 * i + 1) mod 16
               else if i < 48 then (3 * i + 5) mod 16
               else (7 * i) mod 16);
          f' = f + a + md5_K ! i + M ! g
      in (d, b + word_rotl (md5_S ! i) f', b, c))"

fun md5_compress :: "md5_regs \<Rightarrow> byte list \<Rightarrow> md5_regs" where
  "md5_compress (a0, b0, c0, d0) block =
     (case fold (md5_step (le_words block)) [0..<64] (a0, b0, c0, d0) of
        (a, b, c, d) \<Rightarrow> (a0 + a, b0 + b, c0 + c, d0 + d))"

record md5_ctx =
  regs :: md5_regs
  pending :: "byte list"
  count :: nat

definition md5_new :: md5_ctx where
  "md5_new = \<lparr>regs = (0x67452301, 0xefcdab89, 0x98badcfe, 0x10325476), pending = [], count = 0\<rparr>"

definition md5_update_byte :: "md5_ctx \<Rightarrow> byte \<Rightarrow> md5_ctx" where
  "md5_update_byte h b =
     (let buf = pending h @ [b]
      in if length buf = 64
         then \<lparr>regs = md5_compress (regs h) buf, pending = [], count = count h + 1\<rparr>
         else \<lparr>regs = regs h, pending = buf, count = count h + 1\<rparr>)"

definition md5_update :: "md5_ctx \<Rightarrow> byte list \<Rightarrow> md5_ctx" where
  "md5_update h data = foldl md5_update_byte h data"

definition md5_padding :: "nat \<Rightarrow> byte list" where
  "md5_padding n =
     0x80 # replicate ((119 - n mod 64) mod 64) 0
       @ map (\<lambda>k. ucast (drop_bit (8 * k) (of_nat (8 * n) :: 64 word))) [0..<8]"

definition md5_digest :: "md5_ctx \<Rightarrow> byte list" where
  "md5_digest h =
     (case regs (md5_update h (md5_padding (count h))) of
        (a, b, c, d) \<Rightarrow> le_bytes a @ le_bytes b @ le_bytes c @ le_bytes d)"

definition hex_digit :: "nat \<Rightarrow> char" where
  "hex_digit n = (if n < 10 then char_of (48 + n) else char_of (87 + n))"

definition hex_byte :: "byte \<Rightarrow> string" where
  "hex_byte b = [hex_digit (unat b div 16), hex_digit (unat b mod 16)]"

definition md5_hexdigest :: "md5_ctx \<Rightarrow> string" where
  "md5_hexdigest h = concat (map hex_byte (md5_digest h))"

section \<open>Hasher and content validator (app.py)\<close>

text \<open>
  \<open>for chunk in iter(lambda: file_obj.read(4096), b""): hash_md5.update(chunk)\<close>:
  the loop stops at the first empty read.
\<close>

function md5_chunks :: "md5_ctx \<Rightarrow> stream \<Rightarrow> md5_ctx \<times> stream" where
  "md5_chunks hash_md5 file_obj =
     (case read 4096 file_obj of
        (chunk, file_obj') \<Rightarrow>
          if chunk = [] then (hash_md5, file_obj')
          else md5_chunks (md5_update hash_md5 chunk) file_obj')"
  by pat_completeness auto
termination
  by (relation "measure (\<lambda>(h, s). length (content s) - pos s)")
     (auto simp: read_def Let_def)

declare md5_chunks.simps [simp del]

definition calculate_md5 :: "stream \<Rightarrow> string \<times> stream" where
  "calculate_md5 file_obj =
     (case md5_chunks md5_new (seek 0 file_obj) of
        (hash_md5, file_obj') \<Rightarrow> (md5_hexdigest hash_md5, seek 0 file_obj'))"

text \<open>
  Pillow is outside the program. A decoder stands for \<open>Image.open(file_obj)\<close> followed by
  \<open>img.verify()\<close> on a stream positioned at 0: from the bytes it tells whether both
  returned (\<open>True\<close>) or one of them raised, and where it left the read position.
\<close>

type_synonym decoder = "byte list \<Rightarrow> bool \<times> nat"

definition validate_image :: "decoder \<Rightarrow> stream \<Rightarrow> bool \<times> stream" where
  "validate_image pil file_obj =
     (let file_obj1 = seek 0 file_obj
      in case pil (content file_obj1) of
           (verified, p) \<Rightarrow>
             if verified then (True, seek 0 (seek p file_obj1))
             else (False, seek p file_obj1))"

section \<open>Parsed metadata\<close>

text \<open>
  What \<open>json.loads\<close> returns. \<open>JObj\<close> holds the items of the dict, one per key; \<open>JNum\<close>
  stands for every number. \<open>py_in k m\<close> is \<open>k in m\<close> for a string \<open>k\<close>: a key test on
  a dict, an element test on a list, a substring test on a string, a \<open>TypeError\<close> on
  anything else. \<open>py_getitem m k\<close> is \<open>m[k]\<close> for a string \<open>k\<close>.
\<close>

datatype json =
    JNull
  | JBool bool
  | JNum int
  | JStr string
  | JArr "json list"
  | JObj "(string \<times> json) list"

definition is_substring :: "string \<Rightarrow> string \<Rightarrow> bool" where
  "is_substring p s \<longleftrightarrow> list_ex (\<lambda>i. take (length p) (drop i s) = p) [0..<Suc (length s)]"

fun py_in :: "string \<Rightarrow> json \<Rightarrow> exn + bool" where
  "py_in k (JObj items) = Inr (k \<in> set (map fst items))"
| "py_in k (JArr xs) = Inr (JStr k \<in> set xs)"
| "py_in k (JStr s) = Inr (is_substring k s)"
| "py_in k _ = Inl TypeError"

fun py_getitem :: "json \<Rightarrow> string \<Rightarrow> exn + json" where
  "py_getitem (JObj items) k = (case map_of items k of None \<Rightarrow> Inl KeyError | Some v \<Rightarrow> Inr v)"
| "py_getitem _ k = Inl TypeError"

section \<open>Metadata repository (db.py)\<close>

record image_row =
  row_id :: string
  row_s3_key :: string
  row_md5_hash :: string
  row_original_filename :: string
  row_mimetype :: string
  row_filesize :: nat
  row_uploaded_at :: nat
  row_title :: json
  row_description :: json
  row_gemini_analysis :: "string option"

text \<open>The dict \<open>check_image_exists\<close> returns for a row.\<close>

record existing_image =
  ex_id :: string
  ex_s3_key :: string
  ex_title :: json
  ex_description :: json

text \<open>
  The table \<open>images\<close> with its committed rows, and the connection pool: how many
  connections are checked out, and the history of \<open>getconn\<close> and \<open>putconn\<close> calls.
\<close>

datatype pool_event = Acquire | Release

record database =
  rows :: "image_row list"
  in_use :: nat
  pool_log :: "pool_event list"

text \<open>
  A unit of work can fail at each of its statements; \<open>faults\<close> says at which ones it
  does in the run at hand.
\<close>

type_synonym faults = "db_step \<Rightarrow> bool"

definition maxconn :: nat where
  "maxconn = 20"

definition get_connection :: "faults \<Rightarrow> database \<Rightarrow> exn + database" where
  "get_connection faults d =
     (if maxconn \<le> in_use d then Inl PoolError
      else if faults GetConn then Inl (DbFault GetConn)
      else Inr (d\<lparr>in_use := in_use d + 1, pool_log := pool_log d @ [Acquire]\<rparr>))"

definition put_connection :: "database \<Rightarrow> database" where
  "put_connection d = d\<lparr>in_use := in_use d - 1, pool_log := pool_log d @ [Release]\<rparr>"

definition select_by_md5 :: "string \<Rightarrow> image_row list \<Rightarrow> image_row option" where
  "select_by_md5 md5_hash rs = find (\<lambda>r. row_md5_hash r = md5_hash) rs"

definition public_fields :: "image_row \<Rightarrow> existing_image" where
  "public_fields r =
     \<lparr>ex_id = row_id r, ex_s3_key = row_s3_key r, ex_title = row_title r,
      ex_description = row_description r\<rparr>"

text \<open>
  \<open>check_image_exists\<close>. When \<open>get_connection\<close> raises, \<open>conn\<close> is still \<open>None\<close> and
  the \<open>finally\<close> block does nothing; otherwise \<open>put_connection\<close> runs whether the body
  returned or raised.
\<close>

definition check_image_exists ::
  "faults \<Rightarrow> string \<Rightarrow> database \<Rightarrow> (exn + existing_image option) \<times> database" where
  "check_image_exists faults md5_hash d =
     (case get_connection faults d of
        Inl e \<Rightarrow> (Inl e, d)
      | Inr d1 \<Rightarrow>
          (let outcome =
                 (if faults Cursor then Inl (DbFault Cursor)
                  else if faults Execute then Inl (DbFault Execute)
                  else if faults Fetch then Inl (DbFault Fetch)
                  else if faults CloseCursor then Inl (DbFault CloseCursor)
                  else Inr (map_option public_fields (select_by_md5 md5_hash (rows d1))))
           in (outcome, put_connection d1)))"

text \<open>
  Modelled from the spec: the constraints of the table \<open>images\<close>, whose schema is not in
  the source. The spec's data model makes the identifier, the fingerprint and the storage
  key unique across all records; an INSERT that would break one of them fails.
\<close>

definition insert_violates :: "image_row \<Rightarrow> image_row list \<Rightarrow> bool" where
  "insert_violates r rs \<longleftrightarrow>
     list_ex (\<lambda>x. row_id x = row_id r \<or> row_md5_hash x = row_md5_hash r
                  \<or> row_s3_key x = row_s3_key r) rs"

text \<open>
  \<open>save_image_metadata\<close>. \<open>uuid4\<close> and \<open>utcnow\<close> are what \<open>uuid.uuid4()\<close> (as a string)
  and \<open>datetime.utcnow()\<close> return in this call. The INSERT names all ten columns and
  gives each its value; \<open>RETURNING id\<close> gives back the stored identifier. The row is in
  the table once \<open>commit\<close> has returned. On an exception \<open>rollback\<close> is called, which
  can raise in its turn, and the exception goes on to the caller; \<open>put_connection\<close>
  runs in both cases.
\<close>

definition except_rollback :: "faults \<Rightarrow> exn \<Rightarrow> exn" where
  "except_rollback faults e = (if faults Rollback then DbFault Rollback else e)"

definition save_image_metadata ::
  "faults \<Rightarrow> string \<Rightarrow> nat \<Rightarrow> string \<Rightarrow> string \<Rightarrow> string \<Rightarrow> string \<Rightarrow> nat \<Rightarrow> json \<Rightarrow> json \<Rightarrow>
   string option \<Rightarrow> database \<Rightarrow> (exn + image_row) \<times> database" where
  "save_image_metadata faults uuid4 utcnow s3_key md5_hash original_filename mimetype filesize
     title description gemini_analysis d =
     (case get_connection faults d of
        Inl e \<Rightarrow> (Inl e, d)
      | Inr d1 \<Rightarrow>
          (let image_id = uuid4;
               uploaded_at = utcnow;
               values = \<lparr>row_id = image_id, row_s3_key = s3_key, row_md5_hash = md5_hash,
                         row_original_filename = original_filename, row_mimetype = mimetype,
                         row_filesize = filesize, row_uploaded_at = uploaded_at,
                         row_title = title, row_description = description,
                         row_gemini_analysis = gemini_analysis\<rparr>;
               returning_id = row_id values;
               d2 = d1\<lparr>rows := rows d1 @ [values]\<rparr>
           in if faults Cursor
                then (Inl (except_rollback faults (DbFault Cursor)), put_connection d1)
              else if faults Execute
                then (Inl (except_rollback faults (DbFault Execute)), put_connection d1)
              else if insert_violates values (rows d1)
                then (Inl (except_rollback faults UniqueViolation), put_connection d1)
              else if faults Fetch
                then (Inl (except_rollback faults (DbFault Fetch)), put_connection d1)
              else if faults Commit
                then (Inl (except_rollback faults (DbFault Commit)), put_connection d1)
              else if faults CloseCursor
                then (Inl (except_rollback faults (DbFault CloseCursor)), put_connection d2)
              else (Inr \<lparr>row_id = returning_id, row_s3_key = s3_key, row_md5_hash = md5_hash,
                         row_original_filename = original_filename, row_mimetype = mimetype,
                         row_filesize = filesize, row_uploaded_at = uploaded_at,
                         row_title = title, row_description = description,
                         row_gemini_analysis = gemini_analysis\<rparr>,
                    put_connection d2)))"

section \<open>Object store gateway: objects and URLs (s3_utils.py)\<close>

record stored_object =
  obj_content :: "byte list"
  obj_content_type :: string
  obj_metadata :: "(string \<times> string) list"

record presigned_url =
  url_bucket :: string
  url_key :: string
  url_expires_in :: int

text \<open>
  Everything outside the program that a request meets: Pillow, werkzeug's
  \<open>secure_filename\<close>, the configuration, the annotation service (whether the client
  can be set up, and what \<open>generate_content\<close> answers: \<open>None\<close> when it raises, else
  the text), whether the store's upload and the URL signing raise, the faults of the two
  units of work, and the results of \<open>uuid.uuid4()\<close> and \<open>datetime.utcnow()\<close>.
\<close>

record env =
  pil :: decoder
  secure_filename :: "string \<Rightarrow> string"
  GEMINI_API_KEY :: string
  genai_available :: bool
  generate_content :: "byte list \<Rightarrow> string option"
  MINIO_BUCKET_NAME :: string
  upload_fileobj_raises :: "exn option"
  generate_presigned_url_raises :: "exn option"
  check_faults :: faults
  save_faults :: faults
  uuid4_result :: string
  utcnow_result :: nat

text \<open>
  \<open>upload_file\<close>: \<open>upload_fileobj\<close> reads the stream from its position to the end and
  stores the bytes under the key.
\<close>

definition upload_file ::
  "env \<Rightarrow> stream \<Rightarrow> string \<Rightarrow> string \<Rightarrow> (string \<rightharpoonup> stored_object) \<Rightarrow>
   exn + (string \<rightharpoonup> stored_object)" where
  "upload_file e file_obj s3_key content_type objs =
     (case upload_fileobj_raises e of
        Some x \<Rightarrow> Inl x
      | None \<Rightarrow>
          Inr (objs(s3_key \<mapsto>
            \<lparr>obj_content = fst (read_all file_obj), obj_content_type = content_type,
             obj_metadata = [(''uploaded_by'', ''image_api'')]\<rparr>)))"

text \<open>
  \<open>get_file_url(self, s3_key, expiration=3600)\<close>: the third argument is \<open>None\<close> when
  the caller leaves it out.
\<close>

definition get_file_url :: "env \<Rightarrow> string \<Rightarrow> int option \<Rightarrow> exn + presigned_url" where
  "get_file_url e s3_key expiration_arg =
     (let expiration = (case expiration_arg of None \<Rightarrow> 3600 | Some t \<Rightarrow> t)
      in case generate_presigned_url_raises e of
           Some x \<Rightarrow> Inl x
         | None \<Rightarrow>
             Inr \<lparr>url_bucket = MINIO_BUCKET_NAME e, url_key = s3_key,
                  url_expires_in = expiration\<rparr>)"

section \<open>Ingestion orchestrator (app.py)\<close>

definition ALLOWED_EXTENSIONS :: "string list" where
  "ALLOWED_EXTENSIONS = [''png'', ''jpg'', ''jpeg'', ''gif'', ''bmp'', ''webp'']"

definition py_lower :: "string \<Rightarrow> string" where
  "py_lower s =
     map (\<lambda>c. if 65 \<le> (of_char c :: nat) \<and> (of_char c :: nat) \<le> 90
               then char_of (of_char c + (32 :: nat)) else c) s"

text \<open>\<open>filename.rsplit('.', 1)[1]\<close>, for a name that has a dot: what follows the last dot.\<close>

definition after_last_dot :: "string \<Rightarrow> string" where
  "after_last_dot filename = rev (takeWhile (\<lambda>c. c \<noteq> CHR ''.'') (rev filename))"

definition allowed_file :: "string \<Rightarrow> bool" where
  "allowed_file filename \<longleftrightarrow>
     CHR ''.'' \<in> set filename \<and> py_lower (after_last_dot filename) \<in> set ALLOWED_EXTENSIONS"

text \<open>
  \<open>analyze_image_with_gemini\<close>: nothing happens without an API key; a client that cannot
  be set up raises before the stream is touched; otherwise the stream is read from the
  start to the end and put back. Every exception, and an empty text, gives \<open>None\<close>.
\<close>

definition analyze_image_with_gemini :: "env \<Rightarrow> stream \<Rightarrow> string option \<times> stream" where
  "analyze_image_with_gemini e file_obj =
     (if GEMINI_API_KEY e = [] then (None, file_obj)
      else if \<not> genai_available e then (None, file_obj)
      else (case read_all (seek 0 file_obj) of
              (image_data, file_obj1) \<Rightarrow>
                (case generate_content e image_data of
                   None \<Rightarrow> (None, seek 0 file_obj1)
                 | Some text \<Rightarrow> (if text = [] then None else Some text, seek 0 file_obj1))))"

text \<open>
  \<open>upload_image\<close> below is the body of the handler, which \<open>require_api_key\<close> runs
  for a request that carries the right key. The request as the handler sees it: \<open>request.files['image_file']\<close> if there is one,
  and \<open>request.form['metadata']\<close> if there is one, the latter as \<open>json.loads\<close> takes it:
  it raises \<open>JSONDecodeError\<close> (\<open>NotJson\<close>), raises something else, as it does on an
  integer of too many digits or on too deep a nesting (\<open>JsonRaises\<close>), or returns a value.
\<close>

record file_storage =
  filename :: string
  content_type :: "string option"
  file_stream :: stream

datatype form_field = NotJson | JsonRaises | Json json

record request =
  image_file :: "file_storage option"
  metadata_field :: "form_field option"

text \<open>
  The state a request runs against: the database, the objects of the bucket, and the
  calls made so far to the hasher, the validator and the two gateways.
\<close>

datatype call =
    ValidateImage
  | CalculateMd5
  | CheckImageExists
  | AnalyzeImage
  | UploadFile string
  | SaveImageMetadata
  | GetFileUrl

record world =
  db :: database
  objects :: "string \<rightharpoonup> stored_object"
  calls :: "call list"

text \<open>
  The JSON body of a response, by its kind: an error (the value of its \<open>error\<close> key;
  the \<open>message\<close> is fixed by it), the \<open>existing_image\<close> of a 409, or the \<open>data\<close> of
  a 201 with its \<open>download_url\<close> when there is one.
\<close>

datatype body =
    Error string
  | ExistingImage existing_image
  | Data image_row "presigned_url option"

type_synonym response = "body \<times> nat"

definition internal_server_error :: response where
  "internal_server_error = (Error ''Internal server error'', 500)"

text \<open>\<open>'title' not in metadata or 'description' not in metadata\<close>\<close>

definition missing_required :: "json \<Rightarrow> exn + bool" where
  "missing_required metadata =
     (case py_in ''title'' metadata of
        Inl e \<Rightarrow> Inl e
      | Inr has_title \<Rightarrow>
          if \<not> has_title then Inr True
          else (case py_in ''description'' metadata of
                  Inl e \<Rightarrow> Inl e
                | Inr has_description \<Rightarrow> Inr (\<not> has_description)))"

text \<open>What the handler holds once the duplicate check has found nothing.\<close>

record checked =
  ck_file :: stream
  ck_metadata :: json
  ck_original_filename :: string
  ck_mimetype :: string
  ck_filesize :: nat
  ck_md5_hash :: string

text \<open>
  \<open>upload_image\<close>, lines 141 to 158: file information, fingerprint and duplicate check.
  Either the response is decided, or the request goes on to be stored.
\<close>

definition dedup_check ::
  "env \<Rightarrow> file_storage \<Rightarrow> stream \<Rightarrow> json \<Rightarrow> world \<Rightarrow> (response + checked) \<times> world" where
  "dedup_check e file file1 metadata w1 =
     (let original_filename = secure_filename e (filename file);
          mimetype = (case content_type file of
                        None \<Rightarrow> ''application/octet-stream''
                      | Some t \<Rightarrow> if t = [] then ''application/octet-stream'' else t);
          file2 = seek_end file1;
          filesize = tell file2;
          file3 = seek 0 file2
      in case calculate_md5 file3 of
           (md5_hash, file4) \<Rightarrow>
             (case check_image_exists (check_faults e) md5_hash (db w1) of
                (found, d) \<Rightarrow>
                  (let w2 = w1\<lparr>db := d, calls := calls w1 @ [CalculateMd5, CheckImageExists]\<rparr>
                   in case found of
                        Inl x \<Rightarrow> (Inl internal_server_error, w2)
                      | Inr (Some existing) \<Rightarrow> (Inl (ExistingImage existing, 409), w2)
                      | Inr None \<Rightarrow>
                          (Inr \<lparr>ck_file = file4, ck_metadata = metadata,
                                ck_original_filename = original_filename,
                                ck_mimetype = mimetype, ck_filesize = filesize,
                                ck_md5_hash = md5_hash\<rparr>, w2))))"

text \<open>
  \<open>upload_image\<close> up to and including the duplicate check (lines 91 to 158). An
  exception anywhere is caught by the handler and answered with status 500.
\<close>

definition upload_check :: "env \<Rightarrow> request \<Rightarrow> world \<Rightarrow> (response + checked) \<times> world" where
  "upload_check e req w =
     (case image_file req of
        None \<Rightarrow> (Inl (Error ''No image file provided'', 400), w)
      | Some file \<Rightarrow>
          (case metadata_field req of
             None \<Rightarrow> (Inl (Error ''No metadata provided'', 400), w)
           | Some field \<Rightarrow>
               if filename file = [] then (Inl (Error ''No file selected'', 400), w)
               else if \<not> allowed_file (filename file)
                 then (Inl (Error ''Invalid file type'', 400), w)
               else
                 (case validate_image (pil e) (file_stream file) of
                    (valid, file1) \<Rightarrow>
                      (let w1 = w\<lparr>calls := calls w @ [ValidateImage]\<rparr>
                       in if \<not> valid then (Inl (Error ''Invalid image file'', 400), w1)
                          else
                            (case field of
                               NotJson \<Rightarrow> (Inl (Error ''Invalid metadata format'', 400), w1)
                             | JsonRaises \<Rightarrow> (Inl internal_server_error, w1)
                             | Json metadata \<Rightarrow>
                                 (case missing_required metadata of
                                    Inl x \<Rightarrow> (Inl internal_server_error, w1)
                                  | Inr True \<Rightarrow>
                                      (Inl (Error ''Missing required metadata'', 400), w1)
                                  | Inr False \<Rightarrow> dedup_check e file file1 metadata w1))))))"

text \<open>
  \<open>upload_image\<close> after the duplicate check (lines 160 to 191): annotation, object
  write, metadata insert, URL. The arguments of \<open>save_image_metadata\<close> are evaluated
  after the object write, \<open>metadata['title']\<close> and \<open>metadata['description']\<close> among them.
\<close>

definition upload_store :: "env \<Rightarrow> checked \<Rightarrow> world \<Rightarrow> response \<times> world" where
  "upload_store e c w =
     (case analyze_image_with_gemini e (ck_file c) of
        (gemini_analysis, file5) \<Rightarrow>
          (let s3_key = ''images/'' @ ck_md5_hash c @ ''_'' @ ck_original_filename c;
               w1 = w\<lparr>calls := calls w @ [AnalyzeImage, UploadFile s3_key]\<rparr>
           in case upload_file e file5 s3_key (ck_mimetype c) (objects w1) of
                Inl x \<Rightarrow> (internal_server_error, w1)
              | Inr objs \<Rightarrow>
                  (let w2 = w1\<lparr>objects := objs\<rparr>
                   in case py_getitem (ck_metadata c) ''title'' of
                        Inl x \<Rightarrow> (internal_server_error, w2)
                      | Inr title \<Rightarrow>
                  (case py_getitem (ck_metadata c) ''description'' of
                        Inl x \<Rightarrow> (internal_server_error, w2)
                      | Inr description \<Rightarrow>
                  (case save_image_metadata (save_faults e) (uuid4_result e) (utcnow_result e)
                          s3_key (ck_md5_hash c) (ck_original_filename c) (ck_mimetype c)
                          (ck_filesize c) title description gemini_analysis (db w2) of
                     (saved, d) \<Rightarrow>
                       (let w3 = w2\<lparr>db := d, calls := calls w2 @ [SaveImageMetadata]\<rparr>
                        in case saved of
                             Inl x \<Rightarrow> (internal_server_error, w3)
                           | Inr saved_metadata \<Rightarrow>
                               (let w4 = w3\<lparr>calls := calls w3 @ [GetFileUrl]\<rparr>
                                in case get_file_url e s3_key None of
                                     Inl x \<Rightarrow> ((Data saved_metadata None, 201), w4)
                                   | Inr download_url \<Rightarrow>
                                       ((Data saved_metadata (Some download_url), 201), w4))))))))"

text \<open>
  A request whose check phase is over goes on against the state as it is then: a
  decided response is returned, an undecided request is stored.
\<close>

definition finish :: "env \<Rightarrow> response + checked \<Rightarrow> world \<Rightarrow> response \<times> world" where
  "finish e r w = (case r of Inl resp \<Rightarrow> (resp, w) | Inr c \<Rightarrow> upload_store e c w)"

definition upload_image :: "env \<Rightarrow> request \<Rightarrow> world \<Rightarrow> response \<times> world" where
  "upload_image e req w = (case upload_check e req w of (r, w') \<Rightarrow> finish e r w')"

text \<open>
  Two requests served concurrently, in the order of steps in which both make their
  duplicate check before either writes: check of the first, check of the second, then
  the rest of the first, then the rest of the second.
\<close>

definition interleaved ::
  "env \<Rightarrow> request \<Rightarrow> env \<Rightarrow> request \<Rightarrow> world \<Rightarrow> response \<times> response \<times> world" where
  "interleaved e1 req1 e2 req2 w =
     (case upload_check e1 req1 w of
        (r1, w1) \<Rightarrow>
          (case upload_check e2 req2 w1 of
             (r2, w2) \<Rightarrow>
               (case finish e1 r1 w2 of
                  (resp1, w3) \<Rightarrow>
                    (case finish e2 r2 w3 of
                       (resp2, w4) \<Rightarrow> (resp1, resp2, w4)))))"

section \<open>Sample inputs\<close>

text \<open>
  Two processes start against a store without the bucket and both see 404. The first
  one's create succeeds; the second one's create is answered "already owned". A third
  store has no bucket and refuses every create with an internal error.
\<close>

definition first_peer :: s3_backend where
  "first_peer = \<lparr>head_bucket = (\<lambda>_. RaisesClientError ''404''), create_bucket = (\<lambda>_. Returns)\<rparr>"

definition second_peer :: s3_backend where
  "second_peer =
     \<lparr>head_bucket = (\<lambda>_. RaisesClientError ''404''),
      create_bucket = (\<lambda>_. RaisesClientError ''BucketAlreadyOwnedByYou'')\<rparr>"

definition broken_store :: s3_backend where
  "broken_store =
     \<lparr>head_bucket = (\<lambda>_. RaisesClientError ''404''),
      create_bucket = (\<lambda>_. RaisesClientError ''InternalError'')\<rparr>"

text \<open>
  The sample image is a PNG file of one grey pixel: signature, IHDR, IDAT, IEND, 67
  bytes. The other upload is 20 bytes that are no image. \<open>sample_decoder\<close> gives
  Pillow's answers on these two: the PNG is opened and verified, which leaves the stream
  behind the header of its last chunk; on the 20 bytes \<open>Image.open\<close> raises with 18
  bytes read. On other bytes, of which nothing below makes use, it rejects without
  reading.
\<close>

definition sample_png :: "byte list" where
  "sample_png =
     [0x89, 0x50, 0x4E, 0x47, 0x0D, 0x0A, 0x1A, 0x0A,
      0x00, 0x00, 0x00, 0x0D, 0x49, 0x48, 0x44, 0x52,
      0x00, 0x00, 0x00, 0x01, 0x00, 0x00, 0x00, 0x01, 0x08, 0x00, 0x00, 0x00, 0x00,
      0x3A, 0x7E, 0x9B, 0x55,
      0x00, 0x00, 0x00, 0x0A, 0x49, 0x44, 0x41, 0x54,
      0x78, 0xDA, 0x63, 0x60, 0x00, 0x00, 0x00, 0x02, 0x00, 0x01,
      0xE5, 0x27, 0xDE, 0xFC,
      0x00, 0x00, 0x00, 0x00, 0x49, 0x45, 0x4E, 0x44, 0xAE, 0x42, 0x60, 0x82]"

definition sample_garbage :: "byte list" where
  "sample_garbage = replicate 20 7"

definition sample_decoder :: decoder where
  "sample_decoder bs =
     (if bs = sample_png then (True, 63)
      else if bs = sample_garbage then (False, 18)
      else (False, 0))"

text \<open>
  A service with no annotation key, whose stores answer without faults, and a request
  that carries the sample image with a title and a description.
\<close>

definition sample_env :: env where
  "sample_env =
     \<lparr>pil = sample_decoder, secure_filename = (\<lambda>name. name), GEMINI_API_KEY = [],
      genai_available = False, generate_content = (\<lambda>_. None), MINIO_BUCKET_NAME = ''images'',
      upload_fileobj_raises = None, generate_presigned_url_raises = None,
      check_faults = (\<lambda>_. False), save_faults = (\<lambda>_. False),
      uuid4_result = ''0b5e7c1a'', utcnow_result = 1000\<rparr>"

definition sample_stream :: stream where
  "sample_stream = \<lparr>content = sample_png, pos = 0\<rparr>"

definition sample_file :: file_storage where
  "sample_file =
     \<lparr>filename = ''cat.PNG'', content_type = Some ''image/png'', file_stream = sample_stream\<rparr>"

definition sample_request :: request where
  "sample_request =
     \<lparr>image_file = Some sample_file,
      metadata_field = Some (Json (JObj [(''title'', JStr ''T''), (''description'', JStr ''D'')]))\<rparr>"

definition empty_world :: world where
  "empty_world = \<lparr>db = \<lparr>rows = [], in_use = 0, pool_log = []\<rparr>, objects = Map.empty, calls = []\<rparr>"

text \<open>
  A second worker, which draws another identifier; a request with an empty title; the
  20 bytes that are no image as a stream, read up to byte 5; a table that already holds
  the sample image; the same with all 20 connections of the pool checked out.
\<close>

definition second_env :: env where
  "second_env = sample_env\<lparr>uuid4_result := ''7d1f03e2'', utcnow_result := 1001\<rparr>"

definition empty_title_request :: request where
  "empty_title_request =
     \<lparr>image_file = Some sample_file,
      metadata_field = Some (Json (JObj [(''title'', JStr []), (''description'', JStr ''D'')]))\<rparr>"

definition no_description_request :: request where
  "no_description_request =
     \<lparr>image_file = Some sample_file,
      metadata_field = Some (Json (JObj [(''title'', JStr ''T'')]))\<rparr>"

definition garbage_stream :: stream where
  "garbage_stream = \<lparr>content = sample_garbage, pos = 5\<rparr>"

definition sample_row :: image_row where
  "sample_row =
     \<lparr>row_id = ''0b5e7c1a'', row_s3_key = ''images/aa78de6842c7c0fa92d5fd8329f229cf_cat.PNG'',
      row_md5_hash = ''aa78de6842c7c0fa92d5fd8329f229cf'', row_original_filename = ''cat.PNG'',
      row_mimetype = ''image/png'', row_filesize = 67, row_uploaded_at = 1000,
      row_title = JStr ''T'', row_description = JStr ''D'', row_gemini_analysis = None\<rparr>"

definition stocked_world :: world where
  "stocked_world =
     \<lparr>db = \<lparr>rows = [sample_row], in_use = 0, pool_log = []\<rparr>, objects = Map.empty, calls = []\<rparr>"

definition empty_db :: database where
  "empty_db = \<lparr>rows = [], in_use = 0, pool_log = []\<rparr>"

definition late_checked :: checked where
  "late_checked =
     \<lparr>ck_file = sample_stream,
      ck_metadata = JObj [(''title'', JStr ''T''), (''description'', JStr ''D'')],
      ck_original_filename = ''cat.PNG'', ck_mimetype = ''image/png'', ck_filesize = 67,
      ck_md5_hash = ''aa78de6842c7c0fa92d5fd8329f229cf''\<rparr>"

definition full_pool_world :: world where
  "full_pool_world =
     \<lparr>db = \<lparr>rows = [sample_row], in_use = 20, pool_log = []\<rparr>, objects = Map.empty, calls = []\<rparr>"


section \<open>Bucket provisioning: verified properties\<close>

lemma upt_max_retries: "[0..<max_retries] = [0, 1, 2, 3, 4]"
  by (simp add: max_retries_def upt_rec)

lemma sleeps_append [simp]: "sleeps (xs @ ys) = sleeps xs @ sleeps ys"
  by (induction xs rule: sleeps.induct) simp_all

text \<open>
  Attempts that find no bucket and fail to create it for another reason than
  "already exists", none of them the last one, each cost one check, one create and one
  sleep, and double the delay.
\<close>

lemma ensure_attempts_retry:
  "\<forall>i\<in>set as. not_found be i \<and> create_fails_otherwise be i \<and> i < max_retries - 1 \<Longrightarrow>
   ensure_attempts be (as @ rest) d log =
   ensure_attempts be rest (d * 2 ^ length as)
     (log @ concat (map (\<lambda>j. [HeadBucket, CreateBucket, Sleep (d * 2 ^ j)]) [0..<length as]))"
proof (induction as arbitrary: d log)
  case Nil
  then show ?case by simp
next
  case (Cons a as)
  have a: "not_found be a" "create_fails_otherwise be a" "a < max_retries - 1"
    using Cons.prems by simp_all
  have step: "ensure_attempts be (a # as @ rest) d log =
        ensure_attempts be (as @ rest) (d * 2) (log @ [HeadBucket, CreateBucket, Sleep d])"
    using a by (auto simp: not_found_def create_fails_otherwise_def split: s3_reply.splits)
  have shift: "[0..<Suc (length as)] = 0 # map Suc [0..<length as]"
    by (simp add: upt_conv_Cons map_Suc_upt del: upt_Suc)
  have rest_ok: "\<forall>i\<in>set as. not_found be i \<and> create_fails_otherwise be i \<and> i < max_retries - 1"
    using Cons.prems by simp
  have "ensure_attempts be ((a # as) @ rest) d log =
        ensure_attempts be (as @ rest) (d * 2) (log @ [HeadBucket, CreateBucket, Sleep d])"
    using step by (simp only: append_Cons)
  also have "\<dots> = ensure_attempts be rest (d * 2 * 2 ^ length as)
        ((log @ [HeadBucket, CreateBucket, Sleep d]) @
         concat (map (\<lambda>j. [HeadBucket, CreateBucket, Sleep (d * 2 * 2 ^ j)]) [0..<length as]))"
    by (rule Cons.IH [OF rest_ok])
  also have "d * 2 * 2 ^ length as = d * 2 ^ length (a # as)"
    by simp
  also have "(log @ [HeadBucket, CreateBucket, Sleep d]) @
         concat (map (\<lambda>j. [HeadBucket, CreateBucket, Sleep (d * 2 * 2 ^ j)]) [0..<length as]) =
        log @ concat (map (\<lambda>j. [HeadBucket, CreateBucket, Sleep (d * 2 ^ j)]) [0..<length (a # as)])"
    by (simp add: shift comp_def mult.assoc del: upt_Suc)
  finally show ?case .
qed

lemma ensure_attempts_creates:
  "creates (snd (ensure_attempts be as d log)) \<le> creates log + length as"
proof (induction as arbitrary: d log)
  case Nil
  then show ?case by simp
next
  case (Cons a as)
  have "creates (snd (ensure_attempts be as (d * 2) (log @ [HeadBucket, CreateBucket, Sleep d])))
          \<le> creates log + Suc (length as)"
    using Cons.IH [of "d * 2" "log @ [HeadBucket, CreateBucket, Sleep d]"]
    by (simp add: creates_def)
  then show ?case
    by (simp add: creates_def split: s3_reply.split option.split)
qed

lemma ensure_attempts_sleeps:
  "\<exists>n \<le> length (filter (\<lambda>a. a < max_retries - 1) as).
     sleeps (snd (ensure_attempts be as d log)) = sleeps log @ map (\<lambda>j. d * 2 ^ j) [0..<n]"
proof (induction as arbitrary: d log)
  case Nil
  then show ?case by simp
next
  case (Cons a as)
  let ?F = "length (filter (\<lambda>a. a < max_retries - 1) (a # as))"
  have stop: "\<exists>n \<le> ?F. sleeps (log @ evs) = sleeps log @ map (\<lambda>j. d * 2 ^ j) [0..<n]"
    if "sleeps evs = []" for evs
    using that by (intro exI [of _ 0]) simp
  have go: "\<exists>n \<le> ?F.
      sleeps (snd (ensure_attempts be as (d * 2) (log @ [HeadBucket, CreateBucket, Sleep d]))) =
      sleeps log @ map (\<lambda>j. d * 2 ^ j) [0..<n]" if lt: "a < max_retries - 1"
  proof -
    obtain m where m: "m \<le> length (filter (\<lambda>a. a < max_retries - 1) as)"
      "sleeps (snd (ensure_attempts be as (d * 2) (log @ [HeadBucket, CreateBucket, Sleep d]))) =
       sleeps (log @ [HeadBucket, CreateBucket, Sleep d]) @ map (\<lambda>j. d * 2 * 2 ^ j) [0..<m]"
      using Cons.IH [of "d * 2" "log @ [HeadBucket, CreateBucket, Sleep d]"] by blast
    have shift: "[0..<Suc m] = 0 # map Suc [0..<m]"
      by (simp add: upt_conv_Cons map_Suc_upt del: upt_Suc)
    have "sleeps (log @ [HeadBucket, CreateBucket, Sleep d]) @ map (\<lambda>j. d * 2 * 2 ^ j) [0..<m] =
          sleeps log @ map (\<lambda>j. d * 2 ^ j) [0..<Suc m]"
      by (simp add: shift comp_def mult.assoc del: upt_Suc)
    with m lt show ?thesis
      by (intro exI [of _ "Suc m"]) simp
  qed
  show ?case
    using stop [of "[HeadBucket]"] stop [of "[HeadBucket, CreateBucket]"] go
    by (simp split: s3_reply.split option.split)
qed

text \<open>
  C5. If the existence check of attempt \<open>k\<close> reports not-found (code 404) and the create
  of that attempt fails with \<open>BucketAlreadyExists\<close> or \<open>BucketAlreadyOwnedByYou\<close>, the
  bucket having been created by a peer in between, then provisioning returns (READY)
  right after that create: nothing is raised, no sleep and no further attempt follows.
  This holds at the first attempt and after any number \<open>k < 5\<close> of attempts that had to
  be retried.
\<close>

theorem provisioning_race_ready:
  assumes "k < max_retries"
    and "\<forall>i<k. not_found be i \<and> create_fails_otherwise be i"
    and "not_found be k" and "already_exists be k"
  shows "ensure_bucket_exists be =
    (READY, concat (map (\<lambda>j. [HeadBucket, CreateBucket, Sleep (2 ^ j)]) [0..<k])
              @ [HeadBucket, CreateBucket])"
proof -
  have split: "[0..<max_retries] = [0..<k] @ k # [Suc k..<max_retries]"
    using assms(1) by (metis le_add2 less_imp_add_positive upt_add_eq_append upt_conv_Cons zero_le add_0)
  have prem: "\<forall>i\<in>set [0..<k]. not_found be i \<and> create_fails_otherwise be i \<and> i < max_retries - 1"
    using assms(1,2) by auto
  have "ensure_bucket_exists be =
      ensure_attempts be (k # [Suc k..<max_retries]) (2 ^ k)
        (concat (map (\<lambda>j. [HeadBucket, CreateBucket, Sleep (2 ^ j)]) [0..<k]))"
    unfolding ensure_bucket_exists_def split
    using ensure_attempts_retry [OF prem, of "k # [Suc k..<max_retries]" 1 "[]"]
    by simp
  also have "\<dots> = (READY, concat (map (\<lambda>j. [HeadBucket, CreateBucket, Sleep (2 ^ j)]) [0..<k])
              @ [HeadBucket, CreateBucket])"
    using assms(3,4)
    by (auto simp: not_found_def already_exists_def split: s3_reply.splits)
  finally show ?thesis .
qed

lemma py_int_404: "py_int ''404'' = Some 404"
  by (simp add: py_int_def py_strip_def py_isspace_def is_digit_def digit_val_def)

theorem provisioning_race_ready_witness:
  "0 < max_retries \<and> not_found second_peer 0 \<and> already_exists second_peer 0
   \<and> ensure_bucket_exists second_peer = (READY, [HeadBucket, CreateBucket])
   \<and> fst (ensure_bucket_exists first_peer) = READY"
proof -
  have k: "0 < max_retries" by (simp add: max_retries_def)
  have nf: "not_found second_peer 0"
    by (simp add: not_found_def second_peer_def py_int_404)
  have ae: "already_exists second_peer 0"
    by (simp add: already_exists_def second_peer_def)
  have "ensure_bucket_exists second_peer = (READY, [HeadBucket, CreateBucket])"
    using provisioning_race_ready [of 0 second_peer, OF k _ nf ae] by simp
  moreover have "fst (ensure_bucket_exists first_peer) = READY"
    by (simp add: ensure_bucket_exists_def upt_max_retries first_peer_def py_int_404)
  ultimately show ?thesis using k nf ae by simp
qed

text \<open>
  C6. Bucket provisioning always ends (the function is total: the loop is a recursion over
  the five attempts of \<open>range(max_retries)\<close>). Whatever the store answers, at most five
  creates are attempted and the sleeps between them are an initial part of 1, 2, 4, 8
  (base delay 1, doubled after each failed attempt). When all five attempts find no
  bucket and fail to create it for another reason than "already exists", the run ends
  after the fifth create, without a fifth sleep, by raising that create's error (FAILED).
\<close>

theorem provisioning_bounded:
  "sleeps (snd (ensure_bucket_exists be)) \<in> set [[], [1], [1, 2], [1, 2, 4], [1, 2, 4, 8]]
   \<and> creates (snd (ensure_bucket_exists be)) \<le> 5
   \<and> ((\<forall>i<5. not_found be i \<and> create_fails_otherwise be i) \<longrightarrow>
       (\<exists>c. create_bucket be 4 = RaisesClientError c \<and>
            ensure_bucket_exists be =
              (FAILED (ClientError c),
               [HeadBucket, CreateBucket, Sleep 1, HeadBucket, CreateBucket, Sleep 2,
                HeadBucket, CreateBucket, Sleep 4, HeadBucket, CreateBucket, Sleep 8,
                HeadBucket, CreateBucket])))"
proof (intro conjI impI)
  obtain n where n: "n \<le> length (filter (\<lambda>a. a < max_retries - 1) [0..<max_retries])"
    "sleeps (snd (ensure_bucket_exists be)) = map (\<lambda>j. 2 ^ j) [0..<n]"
    using ensure_attempts_sleeps [of "[0..<max_retries]" be 1 "[]"]
    unfolding ensure_bucket_exists_def by auto
  have "n \<le> 4"
    using n(1) by (simp add: upt_max_retries) (simp add: max_retries_def)
  then consider "n = 0" | "n = 1" | "n = 2" | "n = 3" | "n = 4"
    by linarith
  then show "sleeps (snd (ensure_bucket_exists be)) \<in> set [[], [1], [1, 2], [1, 2, 4], [1, 2, 4, 8]]"
    by cases (simp_all add: n(2) upt_rec)
  show "creates (snd (ensure_bucket_exists be)) \<le> 5"
    using ensure_attempts_creates [of be "[0..<max_retries]" 1 "[]"]
    unfolding ensure_bucket_exists_def by (simp add: creates_def max_retries_def)
next
  assume a: "\<forall>i<5. not_found be i \<and> create_fails_otherwise be i"
  have prem: "\<forall>i\<in>set [0..<4]. not_found be i \<and> create_fails_otherwise be i \<and> i < max_retries - 1"
    using a by (auto simp: max_retries_def)
  have split: "[0..<max_retries] = [0..<4] @ [4]"
    by (simp add: max_retries_def upt_rec)
  have run: "ensure_bucket_exists be = ensure_attempts be [4] (2 ^ 4)
      (concat (map (\<lambda>j. [HeadBucket, CreateBucket, Sleep (2 ^ j)]) [0..<4]))"
    unfolding ensure_bucket_exists_def split
    using ensure_attempts_retry [OF prem, of "[4]" 1 "[]"] by simp
  have last: "not_found be 4" "create_fails_otherwise be 4"
    using a by simp_all
  then obtain c where c: "create_bucket be 4 = RaisesClientError c"
    "c \<noteq> ''BucketAlreadyExists''" "c \<noteq> ''BucketAlreadyOwnedByYou''"
    by (auto simp: create_fails_otherwise_def split: s3_reply.splits)
  obtain code where code: "head_bucket be 4 = RaisesClientError code" "py_int code = Some 404"
    using last(1) by (auto simp: not_found_def split: s3_reply.splits)
  have "ensure_attempts be [4] (2 ^ 4)
      (concat (map (\<lambda>j. [HeadBucket, CreateBucket, Sleep (2 ^ j)]) [0..<4])) =
      (FAILED (ClientError c),
               [HeadBucket, CreateBucket, Sleep 1, HeadBucket, CreateBucket, Sleep 2,
                HeadBucket, CreateBucket, Sleep 4, HeadBucket, CreateBucket, Sleep 8,
                HeadBucket, CreateBucket])"
    using c code by (simp add: max_retries_def upt_rec)
  with run c(1) show "\<exists>c. create_bucket be 4 = RaisesClientError c \<and>
            ensure_bucket_exists be =
              (FAILED (ClientError c),
               [HeadBucket, CreateBucket, Sleep 1, HeadBucket, CreateBucket, Sleep 2,
                HeadBucket, CreateBucket, Sleep 4, HeadBucket, CreateBucket, Sleep 8,
                HeadBucket, CreateBucket])"
    by simp
qed

theorem provisioning_bounded_witness:
  "not_found broken_store 0 \<and> create_fails_otherwise broken_store 0
   \<and> not_found broken_store 4 \<and> create_fails_otherwise broken_store 4
   \<and> ensure_bucket_exists broken_store =
       (FAILED (ClientError ''InternalError''),
        [HeadBucket, CreateBucket, Sleep 1, HeadBucket, CreateBucket, Sleep 2,
         HeadBucket, CreateBucket, Sleep 4, HeadBucket, CreateBucket, Sleep 8,
         HeadBucket, CreateBucket])
   \<and> sleeps (snd (ensure_bucket_exists broken_store)) = [1, 2, 4, 8]
   \<and> creates (snd (ensure_bucket_exists broken_store)) = 5"
proof -
  have h: "\<forall>i<5. not_found broken_store i \<and> create_fails_otherwise broken_store i"
    by (simp add: not_found_def create_fails_otherwise_def broken_store_def py_int_404)
  have run: "ensure_bucket_exists broken_store =
       (FAILED (ClientError ''InternalError''),
        [HeadBucket, CreateBucket, Sleep 1, HeadBucket, CreateBucket, Sleep 2,
         HeadBucket, CreateBucket, Sleep 4, HeadBucket, CreateBucket, Sleep 8,
         HeadBucket, CreateBucket])"
    using provisioning_bounded [of broken_store] h by (simp add: broken_store_def)
  show ?thesis
    using h run by (simp add: creates_def)
qed

section \<open>Hasher: verified properties\<close>

lemma md5_update_append: "md5_update (md5_update h xs) ys = md5_update h (xs @ ys)"
  by (simp add: md5_update_def)

lemma md5_update_Nil: "md5_update h [] = h"
  by (simp add: md5_update_def)

lemma take_then_drop: "take n xs @ drop (length (take n xs)) xs = xs"
  by (cases "length xs \<le> n") (simp_all add: min_def)

text \<open>
  The chunk loop feeds the hash object every byte from the read position to the end, in
  order, and stops with the position at the end (or where it was, if that was further).
\<close>

lemma md5_chunks_reads_rest:
  "md5_chunks h s =
     (md5_update h (drop (pos s) (content s)), s\<lparr>pos := max (pos s) (length (content s))\<rparr>)"
proof (induction h s rule: md5_chunks.induct)
  case (1 h s)
  let ?rest = "drop (pos s) (content s)"
  let ?chunk = "take 4096 ?rest"
  let ?s' = "s\<lparr>pos := pos s + length ?chunk\<rparr>"
  have rd: "read 4096 s = (?chunk, ?s')"
    by (simp add: read_def Let_def)
  show ?case
  proof (cases "?chunk = []")
    case True
    then have "?rest = []" by (simp add: take_eq_Nil)
    moreover from this have "length (content s) \<le> pos s" by simp
    ultimately show ?thesis
      using True rd by (subst md5_chunks.simps) (simp add: md5_update_Nil max_def)
  next
    case False
    have ih: "md5_chunks (md5_update h ?chunk) ?s' =
        (md5_update (md5_update h ?chunk) (drop (pos ?s') (content ?s')),
         ?s'\<lparr>pos := max (pos ?s') (length (content ?s'))\<rparr>)"
      using "1.IH" [OF rd [symmetric] False] .
    have lt: "pos s < length (content s)"
      using False by (cases "pos s < length (content s)") simp_all
    have "?chunk @ drop (pos ?s') (content ?s') = ?rest"
      using take_then_drop [of 4096 ?rest] by (simp add: add.commute)
    then have upd: "md5_update (md5_update h ?chunk) (drop (pos ?s') (content ?s')) = md5_update h ?rest"
      by (simp only: md5_update_append)
    have le: "pos s + length ?chunk \<le> length (content s)"
      using lt by simp
    have "md5_chunks h s = md5_chunks (md5_update h ?chunk) ?s'"
      using False rd by (subst md5_chunks.simps) simp
    also have "\<dots> = (md5_update h ?rest, ?s'\<lparr>pos := max (pos ?s') (length (content ?s'))\<rparr>)"
      by (simp only: ih upd)
    also have "?s'\<lparr>pos := max (pos ?s') (length (content ?s'))\<rparr> =
        s\<lparr>pos := max (pos s) (length (content s))\<rparr>"
      using le lt by (simp add: max_def)
    finally show ?thesis .
  qed
qed

lemma calculate_md5_eq:
  "calculate_md5 s = (md5_hexdigest (md5_update md5_new (content s)), s\<lparr>pos := 0\<rparr>)"
  by (simp only: calculate_md5_def md5_chunks_reads_rest) (simp add: seek_def)

lemma length_le_bytes: "length (le_bytes w) = 4"
  by (simp add: le_bytes_def)

lemma length_md5_digest: "length (md5_digest h) = 16"
  by (simp add: md5_digest_def length_le_bytes split: prod.split)

lemma length_concat_hex: "length (concat (map hex_byte bs)) = 2 * length bs"
  by (induction bs) (simp_all add: hex_byte_def)

lemma length_md5_hexdigest: "length (md5_hexdigest h) = 32"
  by (simp add: md5_hexdigest_def length_concat_hex length_md5_digest)

text \<open>
  The model of the hash object gives the digests of RFC 1321 (those of hashlib) for
  the empty input and for the sample image.
\<close>

lemma md5_of_empty: "md5_hexdigest (md5_update md5_new []) = ''d41d8cd98f00b204e9800998ecf8427e''"
  by code_simp

lemma sample_digest:
  "md5_hexdigest (md5_update md5_new sample_png) = ''aa78de6842c7c0fa92d5fd8329f229cf''"
  by code_simp

lemma sample_fingerprint:
  "content s = sample_png \<Longrightarrow>
   calculate_md5 s = (''aa78de6842c7c0fa92d5fd8329f229cf'', s\<lparr>pos := 0\<rparr>)"
  by (simp add: calculate_md5_eq sample_digest)

text \<open>
  C8. For every byte stream, whatever its read position, the fingerprint computed by
  the loop over 4096-byte reads is the MD5 hex digest of the whole content given to the
  hash object as one buffer. So it covers every byte, has the fixed length of 32
  characters, and is the same for any two streams with the same bytes.
\<close>

theorem fingerprint_is_md5_of_content:
  "fst (calculate_md5 s) = md5_hexdigest (md5_update md5_new (content s))
   \<and> length (fst (calculate_md5 s)) = 32"
  by (simp add: calculate_md5_eq length_md5_hexdigest)

lemma read_all_from_start: "fst (read_all (s\<lparr>pos := 0\<rparr>)) = content s"
  by (simp add: read_all_def Let_def)

section \<open>The sample inputs evaluated\<close>

lemma length_sample_png: "length sample_png = 67"
  by (simp add: sample_png_def)

lemma sample_name_allowed: "allowed_file ''cat.PNG''"
  by code_simp

lemma sample_image_valid:
  "validate_image sample_decoder \<lparr>content = sample_png, pos = p\<rparr> =
     (True, \<lparr>content = sample_png, pos = 0\<rparr>)"
  by (simp add: validate_image_def sample_decoder_def seek_def)

lemmas sample_defs =
  sample_env_def second_env_def sample_request_def empty_title_request_def
  no_description_request_def sample_file_def sample_stream_def empty_world_def
  stocked_world_def full_pool_world_def sample_row_def

lemmas handler_defs =
  upload_image_def upload_check_def dedup_check_def upload_store_def finish_def interleaved_def
  missing_required_def analyze_image_with_gemini_def upload_file_def get_file_url_def
  check_image_exists_def save_image_metadata_def get_connection_def put_connection_def
  select_by_md5_def public_fields_def insert_violates_def except_rollback_def maxconn_def
  internal_server_error_def seek_def seek_end_def tell_def Let_def

lemmas sample_facts =
  sample_fingerprint length_sample_png sample_name_allowed sample_image_valid

section \<open>Content validator: verified properties\<close>

lemma validate_image_content: "content (snd (validate_image dec s)) = content s"
  by (simp add: validate_image_def seek_def Let_def split: prod.split)

lemma validate_image_valid: "fst (validate_image dec s) \<Longrightarrow> snd (validate_image dec s) = s\<lparr>pos := 0\<rparr>"
  by (auto simp add: validate_image_def seek_def Let_def split: prod.splits if_splits)

lemma validate_image_True:
  "fst (validate_image dec s) \<Longrightarrow> validate_image dec s = (True, s\<lparr>pos := 0\<rparr>)"
  using validate_image_valid [of dec s] by (cases "validate_image dec s") simp

text \<open>
  What holds: when content validation returns valid, and whenever fingerprint hashing
  returns, the stream is left at position 0 with its bytes unchanged, so a following
  full read yields the whole content.
\<close>

lemma stream_restored:
  "(fst (validate_image dec s) \<longrightarrow>
      pos (snd (validate_image dec s)) = 0
      \<and> content (snd (validate_image dec s)) = content s
      \<and> fst (read_all (snd (validate_image dec s))) = content s)
   \<and> pos (snd (calculate_md5 s)) = 0
   \<and> content (snd (calculate_md5 s)) = content s
   \<and> fst (read_all (snd (calculate_md5 s))) = content s"
  by (simp add: validate_image_valid calculate_md5_eq read_all_from_start)

text \<open>
  What does not: the \<open>seek(0)\<close> that follows \<open>img.verify()\<close> is inside the \<open>try\<close>
  block, so it is skipped when the decoder raises, and the \<open>except\<close> branch returns
  without one. After an invalid result the stream is where the decoder left it.
\<close>

lemma validate_image_invalid:
  "dec (content s) = (False, p) \<Longrightarrow> validate_image dec s = (False, s\<lparr>pos := p\<rparr>)"
  by (simp add: validate_image_def seek_def)

text \<open>
  C7. The claim asks for position 0 after validation whatever the result. On the 20
  bytes that are no image the code returns invalid with the stream at position 18, and
  a following full read yields the last 2 bytes, not the 20 of the content: the code
  misses on its \<open>except\<close> path what it does on the path that returns valid.
\<close>

theorem invalid_image_leaves_position:
  "fst (validate_image sample_decoder garbage_stream) = False
   \<and> pos (snd (validate_image sample_decoder garbage_stream)) = 18
   \<and> fst (read_all (snd (validate_image sample_decoder garbage_stream))) = [7, 7]
   \<and> length (content garbage_stream) = 20"
  by code_simp

section \<open>Metadata repository: verified properties\<close>

text \<open>
  C9. For the lookup by fingerprint and for the insert, whatever statement of the unit of
  work fails (none, the cursor, the execute, the fetch, the commit, the close, also the
  rollback in the exception handler): if a connection was acquired, the pool sees
  exactly one \<open>putconn\<close> after the \<open>getconn\<close>, and the number of connections checked
  out is what it was before the call; if none was acquired, nothing is released.
\<close>

theorem connection_released_exactly_once:
  "(case check_image_exists faults md5_hash d of
      (r, d') \<Rightarrow>
        in_use d' = in_use d
        \<and> pool_log d' = pool_log d @
            (case get_connection faults d of Inl x \<Rightarrow> [] | Inr d1 \<Rightarrow> [Acquire, Release]))
   \<and> (case save_image_metadata faults uuid4 utcnow s3_key md5_hash original_filename mimetype
             filesize title description gemini_analysis d of
      (r, d') \<Rightarrow>
        in_use d' = in_use d
        \<and> pool_log d' = pool_log d @
            (case get_connection faults d of Inl x \<Rightarrow> [] | Inr d1 \<Rightarrow> [Acquire, Release]))"
  by (simp add: check_image_exists_def save_image_metadata_def get_connection_def
      put_connection_def Let_def)

section \<open>Ingestion orchestrator: verified properties\<close>

lemma find_first_match:
  "r \<in> set xs \<Longrightarrow> P r \<Longrightarrow> \<exists>x \<in> set xs. P x \<and> find P xs = Some x"
  by (induction xs) auto

text \<open>
  The lookup against a table that holds a row with the fingerprint: it raises when no
  connection can be had or one of its statements fails, and else returns the four public
  fields of a row with that fingerprint. The rows stay and the connection is back.
\<close>

lemma check_image_exists_record:
  assumes "r \<in> set (rows d)" and "row_md5_hash r = h"
  shows "case check_image_exists faults h d of
           (res, d') \<Rightarrow>
             rows d' = rows d \<and> in_use d' = in_use d
             \<and> (if 20 \<le> in_use d \<or> faults GetConn \<or> faults Cursor \<or> faults Execute
                      \<or> faults Fetch \<or> faults CloseCursor
                  then \<exists>x. res = Inl x
                  else \<exists>x \<in> set (rows d). row_md5_hash x = h
                         \<and> res = Inr (Some \<lparr>ex_id = row_id x, ex_s3_key = row_s3_key x,
                                              ex_title = row_title x,
                                              ex_description = row_description x\<rparr>))"
proof -
  obtain x where x: "x \<in> set (rows d)" "row_md5_hash x = h"
    "find (\<lambda>r. row_md5_hash r = h) (rows d) = Some x"
    using find_first_match [of r "rows d" "\<lambda>r. row_md5_hash r = h"] assms by blast
  show ?thesis
    using x
    by (auto simp: check_image_exists_def get_connection_def put_connection_def Let_def
        maxconn_def select_by_md5_def public_fields_def)
qed

lemma dedup_check_record:
  assumes "r \<in> set (rows (db w1))"
    and "row_md5_hash r = md5_hexdigest (md5_update md5_new (content f1))"
  shows "\<exists>resp w2. dedup_check e fl f1 m w1 = (Inl resp, w2)
      \<and> rows (db w2) = rows (db w1) \<and> in_use (db w2) = in_use (db w1)
      \<and> objects w2 = objects w1
      \<and> calls w2 = calls w1 @ [CalculateMd5, CheckImageExists]
      \<and> (if 20 \<le> in_use (db w1) \<or> check_faults e GetConn \<or> check_faults e Cursor
              \<or> check_faults e Execute \<or> check_faults e Fetch \<or> check_faults e CloseCursor
          then resp = (Error ''Internal server error'', 500)
          else \<exists>x \<in> set (rows (db w1)). row_md5_hash x = row_md5_hash r
                 \<and> resp = (ExistingImage \<lparr>ex_id = row_id x, ex_s3_key = row_s3_key x,
                                           ex_title = row_title x,
                                           ex_description = row_description x\<rparr>, 409))"
proof -
  let ?h = "md5_hexdigest (md5_update md5_new (content f1))"
  obtain res d' where ch: "check_image_exists (check_faults e) ?h (db w1) = (res, d')"
    by (cases "check_image_exists (check_faults e) ?h (db w1)")
  have md5: "calculate_md5 (seek 0 (seek_end f1)) = (?h, f1\<lparr>pos := 0\<rparr>)"
    by (simp add: calculate_md5_eq seek_def seek_end_def)
  note rec = check_image_exists_record [OF assms, of "check_faults e", unfolded ch, simplified]
  show ?thesis
  proof (cases "20 \<le> in_use (db w1) \<or> check_faults e GetConn \<or> check_faults e Cursor
              \<or> check_faults e Execute \<or> check_faults e Fetch \<or> check_faults e CloseCursor")
    case True
    then obtain x where "res = Inl x"
      using rec by auto
    then show ?thesis
      using True rec ch md5
      by (simp add: dedup_check_def Let_def tell_def internal_server_error_def)
  next
    case False
    then obtain x where x: "x \<in> set (rows (db w1))" "row_md5_hash x = ?h"
      "res = Inr (Some \<lparr>ex_id = row_id x, ex_s3_key = row_s3_key x, ex_title = row_title x,
                          ex_description = row_description x\<rparr>)"
      using rec by auto
    have "dedup_check e fl f1 m w1 =
        (Inl (ExistingImage \<lparr>ex_id = row_id x, ex_s3_key = row_s3_key x, ex_title = row_title x,
                              ex_description = row_description x\<rparr>, 409),
         w1\<lparr>db := d', calls := calls w1 @ [CalculateMd5, CheckImageExists]\<rparr>)"
      using x(3) ch md5 by (simp add: dedup_check_def Let_def tell_def)
    then show ?thesis
      using False rec x(1,2) assms(2) by auto
  qed
qed

text \<open>
  C1 (as the code has it). Take a request whose file has a fingerprint (the MD5 hex
  digest of its bytes) that some row of the table carries. Whatever else the request
  holds and whatever the stores do, no object is written and no row inserted: the rows,
  the objects and the pool are what they were, and the only calls made are to the
  validator, the hasher and the lookup. If the request passes the input checks, all
  three are called, and the answer is the 409 with the identifier, storage key, title
  and description of a row with that fingerprint when the lookup returns, and the server
  error of status 500 when the lookup raises (no connection to be had, or a statement of
  the lookup failing).
\<close>

theorem duplicate_answered_without_write:
  assumes "image_file req = Some file"
    and "r \<in> set (rows (db w))"
    and "row_md5_hash r = md5_hexdigest (md5_update md5_new (content (file_stream file)))"
  shows "case upload_image e req w of
           (resp, w') \<Rightarrow>
             rows (db w') = rows (db w) \<and> in_use (db w') = in_use (db w)
             \<and> objects w' = objects w
             \<and> (calls w' = calls w \<or> calls w' = calls w @ [ValidateImage]
                 \<or> calls w' = calls w @ [ValidateImage, CalculateMd5, CheckImageExists])
             \<and> ((\<exists>metadata. metadata_field req = Some (Json metadata)
                        \<and> missing_required metadata = Inr False)
                  \<and> filename file \<noteq> [] \<and> allowed_file (filename file)
                  \<and> fst (validate_image (pil e) (file_stream file))
                 \<longrightarrow>
                  calls w' = calls w @ [ValidateImage, CalculateMd5, CheckImageExists]
                  \<and> (if 20 \<le> in_use (db w) \<or> check_faults e GetConn \<or> check_faults e Cursor
                          \<or> check_faults e Execute \<or> check_faults e Fetch
                          \<or> check_faults e CloseCursor
                      then resp = (Error ''Internal server error'', 500)
                      else \<exists>x \<in> set (rows (db w)). row_md5_hash x = row_md5_hash r
                             \<and> resp = (ExistingImage
                                         \<lparr>ex_id = row_id x, ex_s3_key = row_s3_key x,
                                          ex_title = row_title x,
                                          ex_description = row_description x\<rparr>, 409)))"
proof -
  obtain valid f1 where v: "validate_image (pil e) (file_stream file) = (valid, f1)"
    by (cases "validate_image (pil e) (file_stream file)")
  have c: "content f1 = content (file_stream file)"
    using validate_image_content [of "pil e" "file_stream file"] v by simp
  let ?w1 = "w\<lparr>calls := calls w @ [ValidateImage]\<rparr>"
  have a2: "r \<in> set (rows (db ?w1))"
    using assms(2) by simp
  have a3: "row_md5_hash r = md5_hexdigest (md5_update md5_new (content f1))"
    using assms(3) c by simp
  show ?thesis
  proof (cases "metadata_field req")
    case None
    then show ?thesis
      using assms(1) by (simp add: upload_image_def upload_check_def finish_def)
  next
    case (Some field)
    show ?thesis
    proof (cases "filename file = [] \<or> \<not> allowed_file (filename file) \<or> \<not> valid")
      case True
      then show ?thesis
        using assms(1) Some v
        by (auto simp: upload_image_def upload_check_def finish_def)
    next
      case False
      note ok = False
      show ?thesis
      proof (cases field)
        case NotJson
        then show ?thesis
          using assms(1) Some v ok
          by (simp add: upload_image_def upload_check_def finish_def)
      next
        case JsonRaises
        then show ?thesis
          using assms(1) Some v ok
          by (simp add: upload_image_def upload_check_def finish_def internal_server_error_def)
      next
        case (Json m)
        show ?thesis
        proof (cases "missing_required m")
          case (Inl x)
          then show ?thesis
            using assms(1) Some v ok Json
            by (simp add: upload_image_def upload_check_def finish_def internal_server_error_def)
        next
          case (Inr missing)
          show ?thesis
          proof (cases missing)
            case True
            then show ?thesis
              using assms(1) Some v ok Json Inr
              by (simp add: upload_image_def upload_check_def finish_def)
          next
            case False
            obtain resp w2 where r: "dedup_check e file f1 m ?w1 = (Inl resp, w2)"
              "rows (db w2) = rows (db ?w1)" "in_use (db w2) = in_use (db ?w1)"
              "objects w2 = objects ?w1"
              "calls w2 = calls ?w1 @ [CalculateMd5, CheckImageExists]"
              "if 20 \<le> in_use (db ?w1) \<or> check_faults e GetConn \<or> check_faults e Cursor
                  \<or> check_faults e Execute \<or> check_faults e Fetch \<or> check_faults e CloseCursor
               then resp = (Error ''Internal server error'', 500)
               else \<exists>x \<in> set (rows (db ?w1)). row_md5_hash x = row_md5_hash r
                     \<and> resp = (ExistingImage \<lparr>ex_id = row_id x, ex_s3_key = row_s3_key x,
                                               ex_title = row_title x,
                                               ex_description = row_description x\<rparr>, 409)"
              using dedup_check_record [OF a2 a3, where e = e and fl = "file" and m = m]
              by blast
            have "upload_image e req w = (resp, w2)"
              using assms(1) Some v ok Json Inr False r(1)
              by (simp add: upload_image_def upload_check_def finish_def)
            moreover have "rows (db ?w1) = rows (db w)" "in_use (db ?w1) = in_use (db w)"
              "objects ?w1 = objects w" "calls ?w1 = calls w @ [ValidateImage]"
              by simp_all
            ultimately show ?thesis
              using r(2-6) by (auto split: if_splits)
          qed
        qed
      qed
    qed
  qed
qed

theorem duplicate_answered_without_write_witness:
  "fst (upload_image sample_env sample_request stocked_world) =
     (ExistingImage
        \<lparr>ex_id = ''0b5e7c1a'', ex_s3_key = ''images/aa78de6842c7c0fa92d5fd8329f229cf_cat.PNG'',
         ex_title = JStr ''T'', ex_description = JStr ''D''\<rparr>, 409)
   \<and> rows (db (snd (upload_image sample_env sample_request stocked_world))) = [sample_row]
   \<and> objects (snd (upload_image sample_env sample_request stocked_world)) = Map.empty
   \<and> calls (snd (upload_image sample_env sample_request stocked_world)) =
       [ValidateImage, CalculateMd5, CheckImageExists]"
proof -
  have h1: "image_file sample_request = Some sample_file"
    by (simp add: sample_request_def)
  have h2: "sample_row \<in> set (rows (db stocked_world))"
    by (simp add: stocked_world_def)
  have h3: "row_md5_hash sample_row =
      md5_hexdigest (md5_update md5_new (content (file_stream sample_file)))"
    by (simp add: sample_defs sample_digest)
  have v1: "metadata_field sample_request =
          Some (Json (JObj [(''title'', JStr ''T''), (''description'', JStr ''D'')]))"
    by (simp add: sample_request_def)
  have v2: "missing_required (JObj [(''title'', JStr ''T''), (''description'', JStr ''D'')]) = Inr False"
    by (simp add: missing_required_def)
  have v3: "filename sample_file \<noteq> []"
    by (simp add: sample_file_def)
  have v4: "allowed_file (filename sample_file)"
    by (simp add: sample_defs sample_name_allowed)
  have v5: "fst (validate_image (pil sample_env) (file_stream sample_file))"
    by (simp add: sample_defs sample_image_valid)
  have f: "\<not> (20 \<le> in_use (db stocked_world) \<or> check_faults sample_env GetConn
        \<or> check_faults sample_env Cursor \<or> check_faults sample_env Execute
        \<or> check_faults sample_env Fetch \<or> check_faults sample_env CloseCursor)"
    by (simp add: stocked_world_def sample_env_def)
  show ?thesis
    using duplicate_answered_without_write [OF h1 h2 h3, of sample_env] v1 v2 v3 v4 v5 f
    by (cases "upload_image sample_env sample_request stocked_world")
       (simp add: stocked_world_def sample_row_def)
qed

text \<open>
  C1 as stated fails when the lookup raises: with the record in the table and all 20
  connections of the pool checked out, \<open>check_image_exists\<close> raises and the request is
  answered 500, not 409. Nothing is written then either.
\<close>

theorem duplicate_with_full_pool_counterexample:
  "fst (upload_image sample_env sample_request full_pool_world) =
     (Error ''Internal server error'', 500)
   \<and> rows (db full_pool_world) = [sample_row]
   \<and> row_md5_hash sample_row = fst (calculate_md5 sample_stream)
   \<and> rows (db (snd (upload_image sample_env sample_request full_pool_world))) = [sample_row]
   \<and> calls (snd (upload_image sample_env sample_request full_pool_world)) =
       [ValidateImage, CalculateMd5, CheckImageExists]"
  by (simp add: sample_defs handler_defs sample_facts)

lemma missing_required_obj:
  "missing_required (JObj items) =
     Inr (''title'' \<notin> set (map fst items) \<or> ''description'' \<notin> set (map fst items))"
  by (simp add: missing_required_def)

text \<open>
  C2 (as the code has it). When the parsed metadata is a JSON object that lacks the key
  \<open>title\<close> or the key \<open>description\<close>, the request is rejected with status 400
  whatever else it carries. The hasher and the two gateways are not called (at most the
  content validator ran), and the database and the bucket are untouched. The values of
  the two keys are not looked at: empty strings are accepted.
\<close>

theorem missing_field_rejected:
  assumes "metadata_field req = Some (Json (JObj items))"
    and "''title'' \<notin> set (map fst items) \<or> ''description'' \<notin> set (map fst items)"
  shows "case upload_image e req w of
           (resp, w') \<Rightarrow>
             snd resp = 400 \<and> (\<exists>reason. fst resp = Error reason)
             \<and> db w' = db w \<and> objects w' = objects w
             \<and> (calls w' = calls w \<or> calls w' = calls w @ [ValidateImage])"
  using assms
  by (auto simp: upload_image_def upload_check_def finish_def missing_required_obj Let_def
      split: option.splits prod.splits)

theorem missing_field_rejected_witness:
  "fst (upload_image sample_env no_description_request empty_world) =
     (Error ''Missing required metadata'', 400)
   \<and> snd (upload_image sample_env no_description_request empty_world) =
       empty_world\<lparr>calls := [ValidateImage]\<rparr>"
proof -
  have m: "metadata_field no_description_request = Some (Json (JObj [(''title'', JStr ''T'')]))"
    by (simp add: no_description_request_def)
  have k: "''title'' \<notin> set (map fst [(''title'', JStr ''T'')])
           \<or> ''description'' \<notin> set (map fst [(''title'', JStr ''T'')])"
    by simp
  have f: "fst (upload_image sample_env no_description_request empty_world) =
     (Error ''Missing required metadata'', 400)"
    by (simp add: sample_defs handler_defs sample_facts)
  have c: "calls (snd (upload_image sample_env no_description_request empty_world)) = [ValidateImage]"
    by (simp add: sample_defs handler_defs sample_facts)
  show ?thesis
    using missing_field_rejected [where e = sample_env and w = empty_world, OF m k] f c
    by (cases "upload_image sample_env no_description_request empty_world")
       (simp add: empty_world_def)
qed

text \<open>
  C2 as stated fails for an empty title: the handler tests that the two keys are
  there, not what they hold. A request whose title is the empty string is stored and
  answered 201.
\<close>

theorem empty_title_accepted_counterexample:
  "snd (fst (upload_image sample_env empty_title_request empty_world)) = 201
   \<and> calls (snd (upload_image sample_env empty_title_request empty_world)) =
       [ValidateImage, CalculateMd5, CheckImageExists, AnalyzeImage,
        UploadFile ''images/aa78de6842c7c0fa92d5fd8329f229cf_cat.PNG'',
        SaveImageMetadata, GetFileUrl]
   \<and> map row_title (rows (db (snd (upload_image sample_env empty_title_request empty_world))))
       = [JStr []]"
  by (simp add: sample_defs handler_defs sample_facts)

lemma save_image_metadata_violation:
  "list_ex (\<lambda>r. row_md5_hash r = h) (rows d) \<Longrightarrow>
   (\<exists>x. fst (save_image_metadata faults u t k h n m sz ti de g d) = Inl x)
   \<and> rows (snd (save_image_metadata faults u t k h n m sz ti de g d)) = rows d"
  by (auto simp: save_image_metadata_def get_connection_def put_connection_def Let_def
      insert_violates_def list_ex_iff split: sum.splits)

text \<open>
  C3 (as the code has it). A request that has passed the duplicate check and then
  finds, when it stores, a row with its fingerprint (committed by a concurrent request
  in between) is answered with the server error of status 500, whatever the stores do
  otherwise: the insert fails on the unique fingerprint, is rolled back, the exception
  goes up to the handler, which has one answer for every exception. The table keeps its
  rows. There is no path from a failed insert to the 409 answer.
\<close>

theorem belated_duplicate_is_server_error:
  assumes "list_ex (\<lambda>r. row_md5_hash r = ck_md5_hash c) (rows (db w))"
  shows "fst (upload_store e c w) = (Error ''Internal server error'', 500)
         \<and> rows (db (snd (upload_store e c w))) = rows (db w)"
proof -
  obtain g f where an: "analyze_image_with_gemini e (ck_file c) = (g, f)"
    by (cases "analyze_image_with_gemini e (ck_file c)")
  let ?key = "''images/'' @ ck_md5_hash c @ ''_'' @ ck_original_filename c"
  let ?w1 = "w\<lparr>calls := calls w @ [AnalyzeImage, UploadFile ?key]\<rparr>"
  show ?thesis
  proof (cases "upload_file e f ?key (ck_mimetype c) (objects ?w1)")
    case (Inl x)
    then show ?thesis
      using an by (simp add: upload_store_def Let_def internal_server_error_def)
  next
    case (Inr objs)
    note up = Inr
    show ?thesis
    proof (cases "py_getitem (ck_metadata c) ''title''")
      case (Inl x)
      then show ?thesis
        using an up by (simp add: upload_store_def Let_def internal_server_error_def)
    next
      case (Inr title)
      note ti = Inr
      show ?thesis
      proof (cases "py_getitem (ck_metadata c) ''description''")
        case (Inl x)
        then show ?thesis
          using an up ti by (simp add: upload_store_def Let_def internal_server_error_def)
      next
        case (Inr description)
        let ?save = "save_image_metadata (save_faults e) (uuid4_result e) (utcnow_result e)
             ?key (ck_md5_hash c) (ck_original_filename c) (ck_mimetype c) (ck_filesize c)
             title description g (db w)"
        obtain x where x: "fst ?save = Inl x" and r: "rows (snd ?save) = rows (db w)"
          using save_image_metadata_violation [OF assms] by blast
        then show ?thesis
          using an up ti Inr
          by (cases ?save) (simp add: upload_store_def Let_def internal_server_error_def)
      qed
    qed
  qed
qed

theorem belated_duplicate_is_server_error_witness:
  "list_ex (\<lambda>r. row_md5_hash r = ck_md5_hash late_checked) (rows (db stocked_world))
   \<and> fst (upload_store second_env late_checked stocked_world) = (Error ''Internal server error'', 500)
   \<and> rows (db (snd (upload_store second_env late_checked stocked_world))) = [sample_row]"
proof -
  have h: "list_ex (\<lambda>r. row_md5_hash r = ck_md5_hash late_checked) (rows (db stocked_world))"
    by (simp add: late_checked_def stocked_world_def sample_row_def)
  show ?thesis
    using h belated_duplicate_is_server_error [OF h, of second_env]
    by (simp add: stocked_world_def)
qed

text \<open>
  C3 as stated fails: two requests with the same bytes both pass the duplicate check
  on the empty table; the first is stored and answered 201; the insert of the second
  breaks the unique fingerprint and the second is answered 500, not 409, after its
  object has been written.
\<close>

theorem belated_duplicate_counterexample:
  "snd (fst (interleaved sample_env sample_request second_env sample_request empty_world)) = 201
   \<and> fst (snd (interleaved sample_env sample_request second_env sample_request empty_world))
       = (Error ''Internal server error'', 500)
   \<and> map row_id (rows (db (snd (snd
        (interleaved sample_env sample_request second_env sample_request empty_world)))))
       = [''0b5e7c1a'']
   \<and> calls (snd (snd (interleaved sample_env sample_request second_env sample_request empty_world)))
       = [ValidateImage, CalculateMd5, CheckImageExists,
          ValidateImage, CalculateMd5, CheckImageExists,
          AnalyzeImage, UploadFile ''images/aa78de6842c7c0fa92d5fd8329f229cf_cat.PNG'',
          SaveImageMetadata, GetFileUrl,
          AnalyzeImage, UploadFile ''images/aa78de6842c7c0fa92d5fd8329f229cf_cat.PNG'',
          SaveImageMetadata]"
  by (simp add: sample_defs handler_defs sample_facts)

text \<open>
  C4 (as the code has it). For every successful insert, the identifier and the creation
  timestamp of the stored row are the values the application drew before the INSERT
  (\<open>uuid.uuid4()\<close> and \<open>datetime.utcnow()\<close>) and passed as its parameters; the
  database stores them and returns the identifier it was given.
\<close>

theorem identifier_and_timestamp_from_application:
  "save_image_metadata faults uuid4 utcnow s3_key md5_hash original_filename mimetype
     filesize title description gemini_analysis d = (Inr saved, d')
   \<Longrightarrow> rows d' = rows d @ [saved] \<and> row_id saved = uuid4 \<and> row_uploaded_at saved = utcnow"
  by (auto simp: save_image_metadata_def get_connection_def put_connection_def Let_def
      split: if_splits)

theorem identifier_and_timestamp_from_application_witness:
  "save_image_metadata (\<lambda>_. False) ''0b5e7c1a'' 1000 ''images/k'' ''h'' ''cat.PNG'' ''image/png'' 11
     (JStr ''T'') (JStr ''D'') None empty_db =
     (Inr \<lparr>row_id = ''0b5e7c1a'', row_s3_key = ''images/k'', row_md5_hash = ''h'',
           row_original_filename = ''cat.PNG'', row_mimetype = ''image/png'', row_filesize = 11,
           row_uploaded_at = 1000, row_title = JStr ''T'', row_description = JStr ''D'',
           row_gemini_analysis = None\<rparr>,
      \<lparr>rows = [\<lparr>row_id = ''0b5e7c1a'', row_s3_key = ''images/k'', row_md5_hash = ''h'',
           row_original_filename = ''cat.PNG'', row_mimetype = ''image/png'', row_filesize = 11,
           row_uploaded_at = 1000, row_title = JStr ''T'', row_description = JStr ''D'',
           row_gemini_analysis = None\<rparr>], in_use = 0, pool_log = [Acquire, Release]\<rparr>)
   \<and> row_id (last (rows (snd (save_image_metadata (\<lambda>_. False) ''0b5e7c1a'' 1000 ''images/k'' ''h''
         ''cat.PNG'' ''image/png'' 11 (JStr ''T'') (JStr ''D'') None empty_db)))) = ''0b5e7c1a''"
proof -
  have run: "save_image_metadata (\<lambda>_. False) ''0b5e7c1a'' 1000 ''images/k'' ''h'' ''cat.PNG'' ''image/png'' 11
     (JStr ''T'') (JStr ''D'') None empty_db =
     (Inr \<lparr>row_id = ''0b5e7c1a'', row_s3_key = ''images/k'', row_md5_hash = ''h'',
           row_original_filename = ''cat.PNG'', row_mimetype = ''image/png'', row_filesize = 11,
           row_uploaded_at = 1000, row_title = JStr ''T'', row_description = JStr ''D'',
           row_gemini_analysis = None\<rparr>,
      \<lparr>rows = [\<lparr>row_id = ''0b5e7c1a'', row_s3_key = ''images/k'', row_md5_hash = ''h'',
           row_original_filename = ''cat.PNG'', row_mimetype = ''image/png'', row_filesize = 11,
           row_uploaded_at = 1000, row_title = JStr ''T'', row_description = JStr ''D'',
           row_gemini_analysis = None\<rparr>], in_use = 0, pool_log = [Acquire, Release]\<rparr>)"
    by (simp add: save_image_metadata_def get_connection_def put_connection_def Let_def
        empty_db_def maxconn_def insert_violates_def)
  show ?thesis
    using run identifier_and_timestamp_from_application [OF run] by simp
qed

text \<open>
  C4 as stated fails: the same insert into the same empty table stores another
  identifier and another timestamp when the application draws other values, so they
  are supplied by the application and not assigned by the store.
\<close>

theorem identifier_from_application_counterexample:
  "map row_id (rows (snd (save_image_metadata (\<lambda>_. False) ''0b5e7c1a'' 1000 ''images/k'' ''h''
       ''cat.PNG'' ''image/png'' 11 (JStr ''T'') (JStr ''D'') None empty_db))) = [''0b5e7c1a'']
   \<and> map row_id (rows (snd (save_image_metadata (\<lambda>_. False) ''7d1f03e2'' 1001 ''images/k'' ''h''
       ''cat.PNG'' ''image/png'' 11 (JStr ''T'') (JStr ''D'') None empty_db))) = [''7d1f03e2'']
   \<and> map row_uploaded_at (rows (snd (save_image_metadata (\<lambda>_. False) ''0b5e7c1a'' 1000 ''images/k''
       ''h'' ''cat.PNG'' ''image/png'' 11 (JStr ''T'') (JStr ''D'') None empty_db))) = [1000]
   \<and> map row_uploaded_at (rows (snd (save_image_metadata (\<lambda>_. False) ''7d1f03e2'' 1001 ''images/k''
       ''h'' ''cat.PNG'' ''image/png'' 11 (JStr ''T'') (JStr ''D'') None empty_db))) = [1001]"
  by (simp add: save_image_metadata_def get_connection_def put_connection_def Let_def
      empty_db_def maxconn_def insert_violates_def)

lemma upload_check_never_data: "fst (upload_check e req w) \<noteq> Inl (Data saved url, st)"
  by (auto simp: upload_check_def dedup_check_def Let_def internal_server_error_def
      split: option.splits prod.splits sum.splits form_field.splits bool.splits)

lemma upload_store_data:
  "fst (upload_store e c w) = (Data saved (Some url), st) \<Longrightarrow>
   url_expires_in url = 3600 \<and> url_key url = row_s3_key saved
   \<and> url_bucket url = MINIO_BUCKET_NAME e \<and> st = 201"
  by (auto simp: upload_store_def Let_def internal_server_error_def get_file_url_def
      save_image_metadata_def get_connection_def
      split: prod.splits sum.splits option.splits if_splits)

text \<open>
  C10. \<open>get_file_url\<close> called without an expiration, as the handler calls it, signs
  for 3600 seconds; and every 201 answer of the handler that carries a download URL
  carries one for the stored key with an expiration of 3600 seconds.
\<close>

theorem download_url_expires_in_one_hour:
  "(get_file_url e s3_key None = Inr u \<longrightarrow> url_expires_in u = 3600)
   \<and> (fst (upload_image e req w) = (Data saved (Some url), st) \<longrightarrow>
        url_expires_in url = 3600 \<and> url_key url = row_s3_key saved)"
proof (rule conjI; rule impI)
  assume "get_file_url e s3_key None = Inr u"
  then show "url_expires_in u = 3600"
    by (auto simp: get_file_url_def split: option.splits)
next
  assume a: "fst (upload_image e req w) = (Data saved (Some url), st)"
  obtain r w' where ch: "upload_check e req w = (r, w')"
    by (cases "upload_check e req w")
  have "\<exists>c. r = Inr c"
    using upload_check_never_data [of e req w saved "Some url" st] a ch
    by (cases r) (auto simp: upload_image_def finish_def)
  then obtain c where "r = Inr c" ..
  with a ch have "fst (upload_store e c w') = (Data saved (Some url), st)"
    by (simp add: upload_image_def finish_def)
  then show "url_expires_in url = 3600 \<and> url_key url = row_s3_key saved"
    using upload_store_data by blast
qed

theorem download_url_expires_in_one_hour_witness:
  "fst (upload_image sample_env sample_request empty_world) =
     (Data \<lparr>row_id = ''0b5e7c1a'',
            row_s3_key = ''images/aa78de6842c7c0fa92d5fd8329f229cf_cat.PNG'',
            row_md5_hash = ''aa78de6842c7c0fa92d5fd8329f229cf'',
            row_original_filename = ''cat.PNG'', row_mimetype = ''image/png'',
            row_filesize = 67, row_uploaded_at = 1000, row_title = JStr ''T'',
            row_description = JStr ''D'', row_gemini_analysis = None\<rparr>
        (Some \<lparr>url_bucket = ''images'',
                url_key = ''images/aa78de6842c7c0fa92d5fd8329f229cf_cat.PNG'',
                url_expires_in = 3600\<rparr>), 201)
   \<and> get_file_url sample_env ''images/k'' None =
       Inr \<lparr>url_bucket = ''images'', url_key = ''images/k'', url_expires_in = 3600\<rparr>"
proof -
  have run: "fst (upload_image sample_env sample_request empty_world) =
     (Data \<lparr>row_id = ''0b5e7c1a'',
            row_s3_key = ''images/aa78de6842c7c0fa92d5fd8329f229cf_cat.PNG'',
            row_md5_hash = ''aa78de6842c7c0fa92d5fd8329f229cf'',
            row_original_filename = ''cat.PNG'', row_mimetype = ''image/png'',
            row_filesize = 67, row_uploaded_at = 1000, row_title = JStr ''T'',
            row_description = JStr ''D'', row_gemini_analysis = None\<rparr>
        (Some \<lparr>url_bucket = ''images'',
                url_key = ''images/aa78de6842c7c0fa92d5fd8329f229cf_cat.PNG'',
                url_expires_in = 3600\<rparr>), 201)"
    by (simp add: sample_defs handler_defs sample_facts)
  have url: "get_file_url sample_env ''images/k'' None =
       Inr \<lparr>url_bucket = ''images'', url_key = ''images/k'', url_expires_in = 3600\<rparr>"
    by (simp add: get_file_url_def sample_env_def)
  show ?thesis
    using run url
      download_url_expires_in_one_hour [of sample_env "''images/k''"
        "\<lparr>url_bucket = ''images'', url_key = ''images/k'', url_expires_in = 3600\<rparr>"
        sample_request empty_world]
    by simp
qed

end
